theory Spec2Isabelle
  imports Main "HOL-Library.Sublist"
begin

section \<open>PyInstaller/utils/osx.py: the Mach-O header patcher and the prefix helpers\<close>

text \<open>
  The module has five functions. \<open>fix_exe_for_code_signing\<close> reads a Mach-O
  executable through macholib, checks four assertions on the last architecture slice,
  adds the size of the appended data to two size fields, writes the slices back and, for
  a fat binary, rewrites the fat header. The other four look for the Homebrew and
  Macports prefixes.

  macholib and the Python standard library are not part of the module. A file is what
  \<open>os.path.getsize\<close> and \<open>MachO(filename)\<close> read from it (it is taken to exist, to
  parse and to open for writing), and the fields are Python integers (\<open>int\<close>), as
  macholib exposes them. The writer is macholib's as well:
  whether \<open>executable.write\<close> (line 149) or \<open>to_fileobj\<close> (lines 172 to 174) raises
  on the object model it is given (a header that no longer fits before the first section,
  a value that does not fit its field, a fill that is too large), and what file a refused
  write leaves, is decided outside the module. The embedding takes that as a parameter
  \<open>writer\<close> and fixes only what a write that returns has done: it has stored the object
  model in place. Python's \<open>assert\<close> statements are taken as enabled.
\<close>

subsection \<open>Errors\<close>

text \<open>
  The first five are raised by the module's own statements and by \<open>os.path.dirname\<close>;
  the last four are what the writer can raise.
\<close>

datatype error =
    AssertionError string
  | IndexError
  | AttributeError
  | UnboundLocalError
  | TypeError
  | ValueError
  | StructError
  | MemoryError
  | OSError

subsection \<open>The object model\<close>

text \<open>
  A load command is macholib's tuple \<open>(load_command, command structure, data)\<close>. The
  class of the structure is fixed by the kind \<open>cmd[0].cmd\<close>, so the kind is read off the
  constructor. Only the three kinds the module names are told apart; every other kind is
  \<open>OtherCommand\<close> with its number and payload. The data of a segment command are its
  sections.
\<close>

record segment_command_64 =
  segname :: string
  vmaddr :: int
  vmsize :: int
  fileoff :: int
  filesize :: int
  maxprot :: int
  initprot :: int
  nsects :: int
  flags :: int

record section_64 =
  sectname :: string
  sect_segname :: string
  addr :: int
  sect_size :: int
  sect_offset :: int
  sect_align :: int
  reloff :: int
  nreloc :: int
  sect_flags :: int
  reserved1 :: int
  reserved2 :: int
  reserved3 :: int

record symtab_command =
  symoff :: int
  nsyms :: int
  stroff :: int
  strsize :: int

record linkedit_data_command =
  dataoff :: int
  datasize :: int

datatype command =
    Segment64 segment_command_64 "section_64 list"
  | Symtab symtab_command
  | CodeSignature linkedit_data_command
  | OtherCommand nat "nat list"

datatype lc = LC_SEGMENT_64 | LC_SYMTAB | LC_CODE_SIGNATURE | LC_OTHER nat

fun cmd :: "command \<Rightarrow> lc" where
  "cmd (Segment64 _ _) = LC_SEGMENT_64"
| "cmd (Symtab _) = LC_SYMTAB"
| "cmd (CodeSignature _) = LC_CODE_SIGNATURE"
| "cmd (OtherCommand k _) = LC_OTHER k"

text \<open>One architecture slice: \<open>header.offset\<close> and \<open>header.commands\<close>.\<close>

record MachOHeader =
  offset :: int
  commands :: "command list"

text \<open>
  The fat header as the module reads it back from the file: the magic and the
  \<open>nfat_arch\<close> entries (\<open>fat_arch\<close> or \<open>fat_arch64\<close>, which differ in the width of
  the fields and in a reserved word that only the second has).
\<close>

record fat_arch =
  cputype :: int
  cpusubtype :: int
  arch_offset :: int
  arch_size :: int
  align :: int
  reserved :: int

record fat_header =
  magic :: nat
  archs :: "fat_arch list"

definition FAT_MAGIC :: nat where
  "FAT_MAGIC = 0xcafebabe"

definition FAT_MAGIC_64 :: nat where
  "FAT_MAGIC_64 = 0xcafebabf"

text \<open>
  The file: its length in bytes, the fat header (\<open>None\<close> for a thin binary, where
  \<open>executable.fat\<close> is \<open>None\<close>) and the slices \<open>executable.headers\<close>.
\<close>

record exe_file =
  file_size :: int
  fat :: "fat_header option"
  headers :: "MachOHeader list"

subsection \<open>The writer\<close>

text \<open>
  \<open>refuses w hs\<close> is the exception that \<open>executable.write\<close> raises when it is given
  the slices \<open>hs\<close>, or \<open>None\<close> when it returns; \<open>leaves w f hs\<close> is the file that
  such a refused write leaves of \<open>f\<close> (the file as it was, or a part of the slices
  written). \<open>refuses_fat w fh\<close> is the exception that writing the fat header \<open>fh\<close>
  raises, or \<open>None\<close>. The entries are encoded one by one before they are written and only
  the last one differs from what was read, so a refused fat write leaves the file as the
  write of the slices left it.
\<close>

record writer =
  refuses :: "MachOHeader list \<Rightarrow> error option"
  leaves :: "exe_file \<Rightarrow> MachOHeader list \<Rightarrow> exe_file"
  refuses_fat :: "fat_header \<Rightarrow> error option"

subsection \<open>fix_exe_for_code_signing\<close>

definition LINKEDIT_NAME :: string where
  "LINKEDIT_NAME = ''__LINKEDIT'' @ [CHR 0x00, CHR 0x00, CHR 0x00, CHR 0x00, CHR 0x00, CHR 0x00]"

text \<open>The three list comprehensions over \<open>header.commands\<close>.\<close>

fun is_linkedit :: "command \<Rightarrow> bool" where
  "is_linkedit (Segment64 s _) = (segname s = LINKEDIT_NAME)"
| "is_linkedit _ = False"

definition sign_sec :: "MachOHeader \<Rightarrow> command list" where
  "sign_sec header = filter (\<lambda>c. cmd c = LC_CODE_SIGNATURE) (commands header)"

definition linkedit_seg :: "MachOHeader \<Rightarrow> command list" where
  "linkedit_seg header =
     filter (\<lambda>c. cmd c = LC_SEGMENT_64 \<and> is_linkedit c) (commands header)"

definition symtab_sec :: "MachOHeader \<Rightarrow> command list" where
  "symtab_sec header = filter (\<lambda>c. cmd c = LC_SYMTAB) (commands header)"

text \<open>
  \<open>symtab_sec[0][1]\<close> and \<open>linkedit_seg[0][1]\<close> are the objects held in
  \<open>header.commands\<close>, so \<open>+=\<close> on a field changes the first command of the list that
  the comprehension selected.
\<close>

fun update_first :: "('a \<Rightarrow> bool) \<Rightarrow> ('a \<Rightarrow> 'a) \<Rightarrow> 'a list \<Rightarrow> 'a list" where
  "update_first P g [] = []"
| "update_first P g (x # xs) = (if P x then g x # xs else x # update_first P g xs)"

fun add_strsize :: "int \<Rightarrow> command \<Rightarrow> command" where
  "add_strsize delta (Symtab st) = Symtab (st\<lparr>strsize := strsize st + delta\<rparr>)"
| "add_strsize delta c = c"

fun add_filesize :: "int \<Rightarrow> command \<Rightarrow> command" where
  "add_filesize delta (Segment64 seg secs) =
     Segment64 (seg\<lparr>filesize := filesize seg + delta\<rparr>) secs"
| "add_filesize delta c = c"

text \<open>Lines 130 and 131: the file size that the slice declares.\<close>

definition old_file_size :: "MachOHeader \<Rightarrow> segment_command_64 \<Rightarrow> int" where
  "old_file_size header seg = offset header + fileoff seg + filesize seg"

text \<open>Lines 134 and 136: \<open>symtab_sec.strsize += delta\<close>, then \<open>linkedit_seg.filesize += delta\<close>.\<close>

definition apply_delta :: "int \<Rightarrow> MachOHeader \<Rightarrow> MachOHeader" where
  "apply_delta delta header =
     header\<lparr>commands :=
       update_first (\<lambda>c. cmd c = LC_SEGMENT_64 \<and> is_linkedit c) (add_filesize delta)
         (update_first (\<lambda>c. cmd c = LC_SYMTAB) (add_strsize delta) (commands header))\<rparr>"

text \<open>
  Lines 105 to 136, on the slice \<open>header\<close> and the length \<open>fsize\<close> of the file: the four
  assertions, then the two additions. The result is the slice as \<open>executable.write\<close>
  receives it.
\<close>

definition patch_header :: "int \<Rightarrow> MachOHeader \<Rightarrow> error + MachOHeader" where
  "patch_header fsize header =
     (if length (sign_sec header) \<noteq> 0 then
        Inl (AssertionError ''Executable contains code signature!'')
      else if length (linkedit_seg header) \<noteq> 1 then
        Inl (AssertionError ''Expected exactly one __LINKEDIT segment!'')
      else (case hd (linkedit_seg header) of
        Segment64 seg secs \<Rightarrow>
          if length (symtab_sec header) \<noteq> 1 then
            Inl (AssertionError ''Expected exactly one SYMTAB section!'')
          else (case hd (symtab_sec header) of
            Symtab st \<Rightarrow>
              if fileoff seg + filesize seg \<noteq> stroff st + strsize st then
                Inl (AssertionError ''Sanity check failed!'')
              else
                let delta = fsize - old_file_size header seg
                in Inr (apply_delta delta header)
          | _ \<Rightarrow> Inl AttributeError)
      | _ \<Rightarrow> Inl AttributeError))"

text \<open>
  Lines 160 to 169, on the fat header read back from the file. With a magic that is
  neither of the two, \<open>archs\<close> is never bound; with no entry, \<open>archs[-1]\<close> is out
  of range.
\<close>

definition patch_fat :: "int \<Rightarrow> fat_header \<Rightarrow> error + fat_header" where
  "patch_fat fsize fh =
     (if magic fh = FAT_MAGIC \<or> magic fh = FAT_MAGIC_64 then
        if archs fh = [] then Inl IndexError
        else
          let arch = last (archs fh)
          in Inr (fh\<lparr>archs := butlast (archs fh) @ [arch\<lparr>arch_size := fsize - arch_offset arch\<rparr>]\<rparr>)
      else Inl UnboundLocalError)"

text \<open>
  The whole function: the outcome and the file it leaves. An exception raised before line
  148 leaves the file as it was. At line 149 the writer is given all slices, the last one
  patched; when it raises, the exception goes to the caller and the file is what the
  refused write leaves. An exception raised in the fat pass leaves the slices written.
\<close>

definition fix_exe_for_code_signing :: "writer \<Rightarrow> exe_file \<Rightarrow> (error + unit) \<times> exe_file" where
  "fix_exe_for_code_signing w f =
     (let fsize = file_size f in
      if headers f = [] then (Inl IndexError, f)
      else
        (case patch_header fsize (last (headers f)) of
           Inl e \<Rightarrow> (Inl e, f)
         | Inr header \<Rightarrow>
           let executable = butlast (headers f) @ [header]
           in (case refuses w executable of
                 Some e \<Rightarrow> (Inl e, leaves w f executable)
               | None \<Rightarrow>
                 let f1 = f\<lparr>headers := executable\<rparr>
                 in (case fat f1 of
                       None \<Rightarrow> (Inr (), f1)
                     | Some fh \<Rightarrow>
                       (case patch_fat fsize fh of
                          Inl e \<Rightarrow> (Inl e, f1)
                        | Inr fh' \<Rightarrow>
                          (case refuses_fat w fh' of
                             Some e \<Rightarrow> (Inl e, f1)
                           | None \<Rightarrow> (Inr (), f1\<lparr>fat := Some fh'\<rparr>)))))))"

subsection \<open>The prefix helpers\<close>

text \<open>
  \<open>shutil.which\<close> depends on \<open>PATH\<close> and the file system: it is a parameter
  \<open>which\<close>, with \<open>None\<close> when the command is not found. \<open>base_prefix\<close> comes from
  \<open>PyInstaller.compat\<close> and is a parameter too. \<open>os.path.dirname\<close> is the one of
  \<open>posixpath\<close>: the part up to the last slash, without trailing slashes unless it
  consists of slashes only; its argument goes through \<open>os.fspath\<close>, which raises
  \<open>TypeError\<close> on \<open>None\<close>.
\<close>

definition posix_dirname :: "string \<Rightarrow> string" where
  "posix_dirname p =
     (let head = rev (dropWhile (\<lambda>c. c \<noteq> CHR ''/'') (rev p))
      in if head \<noteq> [] \<and> \<not> list_all (\<lambda>c. c = CHR ''/'') head
         then rev (dropWhile (\<lambda>c. c = CHR ''/'') (rev head))
         else head)"

definition dirname :: "string option \<Rightarrow> error + string" where
  "dirname p = (case p of None \<Rightarrow> Inl TypeError | Some s \<Rightarrow> Inr (posix_dirname s))"

definition get_homebrew_prefix :: "(string \<Rightarrow> string option) \<Rightarrow> error + string" where
  "get_homebrew_prefix which =
     (let prefix = which ''brew''
      in case dirname prefix of
           Inl e \<Rightarrow> Inl e
         | Inr d \<Rightarrow> dirname (Some d))"

definition get_macports_prefix :: "(string \<Rightarrow> string option) \<Rightarrow> error + string" where
  "get_macports_prefix which =
     (let prefix = which ''port''
      in case dirname prefix of
           Inl e \<Rightarrow> Inl e
         | Inr d \<Rightarrow> dirname (Some d))"

definition is_homebrew_env :: "(string \<Rightarrow> string option) \<Rightarrow> string \<Rightarrow> error + bool" where
  "is_homebrew_env which base_prefix =
     (case get_homebrew_prefix which of
        Inl e \<Rightarrow> Inl e
      | Inr env_prefix \<Rightarrow> Inr (env_prefix \<noteq> [] \<and> prefix env_prefix base_prefix))"

definition is_macports_env :: "(string \<Rightarrow> string option) \<Rightarrow> string \<Rightarrow> error + bool" where
  "is_macports_env which base_prefix =
     (case get_macports_prefix which of
        Inl e \<Rightarrow> Inl e
      | Inr env_prefix \<Rightarrow> Inr (env_prefix \<noteq> [] \<and> prefix env_prefix base_prefix))"

subsection \<open>What a run may change in a load command\<close>

text \<open>
  \<open>cmd_frame c c'\<close>: the command \<open>c'\<close> is \<open>c\<close>, except for \<open>strsize\<close> when it
  is a symbol-table command and for \<open>filesize\<close> when it is a segment-64 command named
  \<open>__LINKEDIT\<close>.
\<close>

fun cmd_frame :: "command \<Rightarrow> command \<Rightarrow> bool" where
  "cmd_frame (Symtab st) c' =
     (case c' of Symtab st' \<Rightarrow> st'\<lparr>strsize := strsize st\<rparr> = st | _ \<Rightarrow> False)"
| "cmd_frame (Segment64 seg secs) c' =
     (case c' of
        Segment64 seg' secs' \<Rightarrow>
          secs' = secs \<and>
          (if segname seg = LINKEDIT_NAME then seg'\<lparr>filesize := filesize seg\<rparr> = seg
           else seg' = seg)
      | _ \<Rightarrow> False)"
| "cmd_frame c c' = (c' = c)"

subsection \<open>Example files\<close>

text \<open>
  The commands of the examples: a \<open>__TEXT\<close> segment of \<open>sz\<close> bytes from the start
  of the slice, with one section \<open>__text\<close> from byte 4096 to the end of the segment; a
  \<open>__LINKEDIT\<close> segment without sections; a UUID command, which the module does not
  look at. The header and the load commands end before byte 4096.
\<close>

definition TEXT_NAME :: string where
  "TEXT_NAME = ''__TEXT'' @ [CHR 0x00, CHR 0x00, CHR 0x00, CHR 0x00, CHR 0x00,
     CHR 0x00, CHR 0x00, CHR 0x00, CHR 0x00, CHR 0x00]"

definition TEXT_SECT_NAME :: string where
  "TEXT_SECT_NAME = ''__text'' @ [CHR 0x00, CHR 0x00, CHR 0x00, CHR 0x00, CHR 0x00,
     CHR 0x00, CHR 0x00, CHR 0x00, CHR 0x00, CHR 0x00]"

definition text_segment :: "int \<Rightarrow> segment_command_64" where
  "text_segment sz = \<lparr>segname = TEXT_NAME, vmaddr = 0x100000000, vmsize = 0x18000,
     fileoff = 0, filesize = sz, maxprot = 5, initprot = 5, nsects = 1, flags = 0\<rparr>"

definition text_section :: "int \<Rightarrow> section_64" where
  "text_section sz = \<lparr>sectname = TEXT_SECT_NAME, sect_segname = TEXT_NAME,
     addr = 0x100001000, sect_size = sz - 4096, sect_offset = 4096, sect_align = 4,
     reloff = 0, nreloc = 0, sect_flags = 0x80000400,
     reserved1 = 0, reserved2 = 0, reserved3 = 0\<rparr>"

definition text_command :: "int \<Rightarrow> command" where
  "text_command sz = Segment64 (text_segment sz) [text_section sz]"

definition linkedit_segment :: "int \<Rightarrow> int \<Rightarrow> segment_command_64" where
  "linkedit_segment off sz = \<lparr>segname = LINKEDIT_NAME, vmaddr = 0x100018000, vmsize = 0x2000,
     fileoff = off, filesize = sz, maxprot = 1, initprot = 1, nsects = 0, flags = 0\<rparr>"

definition uuid_command :: command where
  "uuid_command = OtherCommand 0x1b [0x4c, 0x1d, 0x5a, 0x21, 0x9e, 0x0b, 0x3f, 0x77,
     0x8a, 0x61, 0xd2, 0x04, 0xc3, 0x55, 0x19, 0xee]"

text \<open>
  A thin 64-bit executable that declares 100000 bytes (the \<open>__LINKEDIT\<close> segment
  at 95000 with 5000 bytes, the string table at 99600 with 400 bytes) and has 20 bytes
  appended; the same executable cut to 99980 bytes; a signed one, whose signature lies
  after the string table; a signed one with two \<open>__LINKEDIT\<close> segments; and a fat
  binary of two slices with 40005 bytes appended.
\<close>

definition thin_header :: MachOHeader where
  "thin_header = \<lparr>offset = 0, commands =
     [text_command 95000, Segment64 (linkedit_segment 95000 5000) [],
      uuid_command,
      Symtab \<lparr>symoff = 95000, nsyms = 200, stroff = 99600, strsize = 400\<rparr>]\<rparr>"

definition thin_exe :: exe_file where
  "thin_exe = \<lparr>file_size = 100020, fat = None, headers = [thin_header]\<rparr>"

definition truncated_exe :: exe_file where
  "truncated_exe = \<lparr>file_size = 99980, fat = None, headers = [thin_header]\<rparr>"

definition signed_header :: MachOHeader where
  "signed_header = \<lparr>offset = 0, commands =
     [text_command 95000, Segment64 (linkedit_segment 95000 5000) [],
      Symtab \<lparr>symoff = 95000, nsyms = 200, stroff = 99000, strsize = 400\<rparr>,
      CodeSignature \<lparr>dataoff = 99408, datasize = 592\<rparr>]\<rparr>"

definition signed_exe :: exe_file where
  "signed_exe = \<lparr>file_size = 100020, fat = None, headers = [signed_header]\<rparr>"

definition signed_two_linkedit_header :: MachOHeader where
  "signed_two_linkedit_header = \<lparr>offset = 0, commands =
     [text_command 95000, Segment64 (linkedit_segment 95000 2500) [],
      Segment64 (linkedit_segment 97500 2500) [],
      Symtab \<lparr>symoff = 97500, nsyms = 100, stroff = 99100, strsize = 400\<rparr>,
      CodeSignature \<lparr>dataoff = 99504, datasize = 496\<rparr>]\<rparr>"

definition signed_two_linkedit_exe :: exe_file where
  "signed_two_linkedit_exe =
     \<lparr>file_size = 100020, fat = None, headers = [signed_two_linkedit_header]\<rparr>"

text \<open>
  Three unsigned thin executables that an assertion stops: the string table ends 600
  bytes before the segment does; there are two \<open>__LINKEDIT\<close> segments; there is no
  symbol-table command.
\<close>

definition gap_header :: MachOHeader where
  "gap_header = \<lparr>offset = 0, commands =
     [text_command 95000, Segment64 (linkedit_segment 95000 5000) [],
      Symtab \<lparr>symoff = 95000, nsyms = 200, stroff = 99000, strsize = 400\<rparr>]\<rparr>"

definition gap_exe :: exe_file where
  "gap_exe = \<lparr>file_size = 100020, fat = None, headers = [gap_header]\<rparr>"

definition two_linkedit_header :: MachOHeader where
  "two_linkedit_header = \<lparr>offset = 0, commands =
     [text_command 95000, Segment64 (linkedit_segment 95000 2500) [],
      Segment64 (linkedit_segment 97500 2500) [],
      Symtab \<lparr>symoff = 97500, nsyms = 100, stroff = 99600, strsize = 400\<rparr>]\<rparr>"

definition two_linkedit_exe :: exe_file where
  "two_linkedit_exe = \<lparr>file_size = 100020, fat = None, headers = [two_linkedit_header]\<rparr>"

definition no_symtab_header :: MachOHeader where
  "no_symtab_header = \<lparr>offset = 0, commands =
     [text_command 95000, Segment64 (linkedit_segment 95000 5000) []]\<rparr>"

definition no_symtab_exe :: exe_file where
  "no_symtab_exe = \<lparr>file_size = 100020, fat = None, headers = [no_symtab_header]\<rparr>"

definition fat_first_header :: MachOHeader where
  "fat_first_header = \<lparr>offset = 16384, commands =
     [text_command 45000, Segment64 (linkedit_segment 45000 5000) [],
      Symtab \<lparr>symoff = 45000, nsyms = 200, stroff = 49600, strsize = 400\<rparr>]\<rparr>"

definition fat_last_header :: MachOHeader where
  "fat_last_header = \<lparr>offset = 81920, commands =
     [text_command 35000, Segment64 (linkedit_segment 35000 5000) [],
      Symtab \<lparr>symoff = 35000, nsyms = 200, stroff = 39600, strsize = 400\<rparr>]\<rparr>"

definition fat_first_arch :: fat_arch where
  "fat_first_arch = \<lparr>cputype = 0x01000007, cpusubtype = 3, arch_offset = 16384,
     arch_size = 50000, align = 14, reserved = 0\<rparr>"

definition fat_last_arch :: fat_arch where
  "fat_last_arch = \<lparr>cputype = 0x0100000c, cpusubtype = 0, arch_offset = 81920,
     arch_size = 40000, align = 14, reserved = 0\<rparr>"

definition fat_exe :: exe_file where
  "fat_exe = \<lparr>file_size = 161925,
     fat = Some \<lparr>magic = FAT_MAGIC, archs = [fat_first_arch, fat_last_arch]\<rparr>,
     headers = [fat_first_header, fat_last_header]\<rparr>"

text \<open>The thin, the cut and the fat example after a run that returns.\<close>

definition thin_header_patched :: MachOHeader where
  "thin_header_patched = \<lparr>offset = 0, commands =
     [text_command 95000, Segment64 (linkedit_segment 95000 5020) [],
      uuid_command,
      Symtab \<lparr>symoff = 95000, nsyms = 200, stroff = 99600, strsize = 420\<rparr>]\<rparr>"

definition thin_exe_patched :: exe_file where
  "thin_exe_patched = \<lparr>file_size = 100020, fat = None, headers = [thin_header_patched]\<rparr>"

definition truncated_header_patched :: MachOHeader where
  "truncated_header_patched = \<lparr>offset = 0, commands =
     [text_command 95000, Segment64 (linkedit_segment 95000 4980) [],
      uuid_command,
      Symtab \<lparr>symoff = 95000, nsyms = 200, stroff = 99600, strsize = 380\<rparr>]\<rparr>"

definition truncated_exe_patched :: exe_file where
  "truncated_exe_patched =
     \<lparr>file_size = 99980, fat = None, headers = [truncated_header_patched]\<rparr>"

definition fat_last_header_patched :: MachOHeader where
  "fat_last_header_patched = \<lparr>offset = 81920, commands =
     [text_command 35000, Segment64 (linkedit_segment 35000 45005) [],
      Symtab \<lparr>symoff = 35000, nsyms = 200, stroff = 39600, strsize = 40405\<rparr>]\<rparr>"

definition fat_exe_patched :: exe_file where
  "fat_exe_patched = \<lparr>file_size = 161925,
     fat = Some \<lparr>magic = FAT_MAGIC,
              archs = [fat_first_arch, fat_last_arch\<lparr>arch_size := 80005\<rparr>]\<rparr>,
     headers = [fat_first_header, fat_last_header_patched]\<rparr>"

text \<open>
  Two writers. \<open>accepting\<close> returns from every write: it stands for macholib on the
  example files that a run patches, whose load commands end before the first section and
  whose new sizes fit their fields. \<open>too_large\<close> raises \<open>ValueError\<close> before it
  writes anything.
\<close>

definition accepting :: writer where
  "accepting = \<lparr>refuses = (\<lambda>hs. None), leaves = (\<lambda>f hs. f), refuses_fat = (\<lambda>fh. None)\<rparr>"

definition too_large :: writer where
  "too_large = \<lparr>refuses = (\<lambda>hs. Some ValueError), leaves = (\<lambda>f hs. f),
     refuses_fat = (\<lambda>fh. None)\<rparr>"

section \<open>Auxiliary facts\<close>

subsection \<open>Updating the first selected element\<close>

lemma length_update_first: "length (update_first P g xs) = length xs"
  by (induction xs) auto

lemma filter_update_first_same:
  "(\<And>x. P x \<Longrightarrow> P (g x)) \<Longrightarrow>
   filter P (update_first P g xs) = (case filter P xs of [] \<Rightarrow> [] | y # ys \<Rightarrow> g y # ys)"
  by (induction xs) auto

lemma filter_update_first_other:
  "(\<And>x. P x \<Longrightarrow> \<not> Q x \<and> \<not> Q (g x)) \<Longrightarrow> filter Q (update_first P g xs) = filter Q xs"
  by (induction xs) auto

lemma update_first_id: "(\<And>x. P x \<Longrightarrow> g x = x) \<Longrightarrow> update_first P g xs = xs"
  by (induction xs) auto

lemma list_all2_update_first:
  "(\<And>x. R x x) \<Longrightarrow> (\<And>x. P x \<Longrightarrow> R x (g x)) \<Longrightarrow> list_all2 R xs (update_first P g xs)"
  by (induction xs) (auto intro: list_all2_refl)

lemma cmd_Segment64D: "cmd c = LC_SEGMENT_64 \<Longrightarrow> \<exists>s d. c = Segment64 s d"
  by (cases c) auto

lemma cmd_SymtabD: "cmd c = LC_SYMTAB \<Longrightarrow> \<exists>s. c = Symtab s"
  by (cases c) auto

lemma filter_singleton_hd:
  assumes "length (filter P xs) = 1"
  shows "filter P xs = [hd (filter P xs)] \<and> P (hd (filter P xs))"
proof -
  from assms obtain y where y: "filter P xs = [y]"
    by (cases "filter P xs") auto
  then have "y \<in> set (filter P xs)" by simp
  then have "P y" by simp
  with y show ?thesis by simp
qed

subsection \<open>The two additions\<close>

lemma sign_sec_apply_delta: "sign_sec (apply_delta d h) = sign_sec h"
proof -
  have 1: "\<And>x. cmd x = LC_SEGMENT_64 \<and> is_linkedit x \<Longrightarrow>
      \<not> cmd x = LC_CODE_SIGNATURE \<and> \<not> cmd (add_filesize d x) = LC_CODE_SIGNATURE"
    subgoal for x by (cases x) auto
    done
  have 2: "\<And>x. cmd x = LC_SYMTAB \<Longrightarrow>
      \<not> cmd x = LC_CODE_SIGNATURE \<and> \<not> cmd (add_strsize d x) = LC_CODE_SIGNATURE"
    subgoal for x by (cases x) auto
    done
  show ?thesis
    unfolding sign_sec_def apply_delta_def
    by (simp add: filter_update_first_other [where Q = "\<lambda>c. cmd c = LC_CODE_SIGNATURE", OF 1]
        filter_update_first_other [where Q = "\<lambda>c. cmd c = LC_CODE_SIGNATURE", OF 2])
qed

lemma linkedit_seg_apply_delta:
  "linkedit_seg (apply_delta d h) =
     (case linkedit_seg h of [] \<Rightarrow> [] | y # ys \<Rightarrow> add_filesize d y # ys)"
proof -
  let ?PL = "\<lambda>c. cmd c = LC_SEGMENT_64 \<and> is_linkedit c"
  have 1: "\<And>x. ?PL x \<Longrightarrow> ?PL (add_filesize d x)"
    subgoal for x by (cases x) auto
    done
  have 2: "\<And>x. cmd x = LC_SYMTAB \<Longrightarrow> \<not> ?PL x \<and> \<not> ?PL (add_strsize d x)"
    subgoal for x by (cases x) auto
    done
  show ?thesis
    unfolding linkedit_seg_def apply_delta_def
    by (simp add: filter_update_first_same [where P = ?PL, OF 1]
        filter_update_first_other [where Q = ?PL, OF 2])
qed

lemma symtab_sec_apply_delta:
  "symtab_sec (apply_delta d h) =
     (case symtab_sec h of [] \<Rightarrow> [] | y # ys \<Rightarrow> add_strsize d y # ys)"
proof -
  let ?PL = "\<lambda>c. cmd c = LC_SEGMENT_64 \<and> is_linkedit c"
  let ?PS = "\<lambda>c. cmd c = LC_SYMTAB"
  have 1: "\<And>x. ?PS x \<Longrightarrow> ?PS (add_strsize d x)"
    subgoal for x by (cases x) auto
    done
  have 2: "\<And>x. ?PL x \<Longrightarrow> \<not> ?PS x \<and> \<not> ?PS (add_filesize d x)"
    subgoal for x by (cases x) auto
    done
  show ?thesis
    unfolding symtab_sec_def apply_delta_def
    by (simp add: filter_update_first_same [where P = ?PS, OF 1]
        filter_update_first_other [where Q = ?PS, OF 2])
qed

lemma apply_delta_0: "apply_delta 0 h = h"
proof -
  have 1: "\<And>x. add_strsize 0 x = x"
    subgoal for x by (cases x) auto
    done
  have 2: "\<And>x. add_filesize 0 x = x"
    subgoal for x by (cases x) auto
    done
  show ?thesis
    unfolding apply_delta_def by (simp add: update_first_id 1 2)
qed

lemma offset_apply_delta: "offset (apply_delta d h) = offset h"
  by (simp add: apply_delta_def)

lemma apply_delta_commands_only: "apply_delta d h = h\<lparr>commands := commands (apply_delta d h)\<rparr>"
  by (simp add: apply_delta_def)

lemma patched_slice:
  assumes "linkedit_seg h = [Segment64 seg secs]" "symtab_sec h = [Symtab st]"
  shows "linkedit_seg (apply_delta d h) = [Segment64 (seg\<lparr>filesize := filesize seg + d\<rparr>) secs]"
    and "symtab_sec (apply_delta d h) = [Symtab (st\<lparr>strsize := strsize st + d\<rparr>)]"
  using assms by (simp_all add: linkedit_seg_apply_delta symtab_sec_apply_delta)

lemma cmd_frame_refl: "cmd_frame c c"
  by (cases c) auto

lemma cmd_frame_add_strsize: "cmd_frame c (add_strsize d c)"
  by (cases c) auto

lemma cmd_frame_add_filesize:
  "cmd c = LC_SEGMENT_64 \<and> is_linkedit c \<Longrightarrow> cmd_frame c (add_filesize d c)"
  by (cases c) auto

lemma cmd_frame_apply_delta: "list_all2 cmd_frame (commands h) (commands (apply_delta d h))"
proof -
  let ?PL = "\<lambda>c. cmd c = LC_SEGMENT_64 \<and> is_linkedit c"
  let ?PS = "\<lambda>c. cmd c = LC_SYMTAB"
  have a: "list_all2 cmd_frame xs (update_first ?PS (add_strsize d) xs)" for xs
    by (rule list_all2_update_first) (simp_all add: cmd_frame_refl cmd_frame_add_strsize)
  have b: "list_all2 cmd_frame xs (update_first ?PL (add_filesize d) xs)" for xs
    by (rule list_all2_update_first) (simp_all add: cmd_frame_refl cmd_frame_add_filesize)
  have "list_all2 cmd_frame xs
          (update_first ?PL (add_filesize d) (update_first ?PS (add_strsize d) xs))" for xs
  proof (induction xs)
    case Nil
    show ?case by simp
  next
    case (Cons x xs)
    show ?case
    proof (cases "?PS x")
      case True
      then obtain st where "x = Symtab st"
        using cmd_SymtabD by blast
      then show ?thesis
        by (simp add: b)
    next
      case False
      with Cons show ?thesis
        by (simp add: cmd_frame_refl cmd_frame_add_filesize a)
    qed
  qed
  then show ?thesis by (simp add: apply_delta_def)
qed

subsection \<open>The assertions\<close>

lemma patch_header_ok:
  assumes "sign_sec h = []" "linkedit_seg h = [Segment64 seg secs]" "symtab_sec h = [Symtab st]"
    and "fileoff seg + filesize seg = stroff st + strsize st"
  shows "patch_header fsize h = Inr (apply_delta (fsize - old_file_size h seg) h)"
  using assms by (simp add: patch_header_def)

lemma linkedit_seg_shape:
  assumes "length (linkedit_seg h) = 1"
  shows "\<exists>seg secs. linkedit_seg h = [Segment64 seg secs]"
proof -
  from filter_singleton_hd [of "\<lambda>c. cmd c = LC_SEGMENT_64 \<and> is_linkedit c" "commands h"] assms
  have "linkedit_seg h = [hd (linkedit_seg h)]" and "cmd (hd (linkedit_seg h)) = LC_SEGMENT_64"
    by (simp_all add: linkedit_seg_def)
  then show ?thesis using cmd_Segment64D by metis
qed

lemma symtab_sec_shape:
  assumes "length (symtab_sec h) = 1"
  shows "\<exists>st. symtab_sec h = [Symtab st]"
proof -
  from filter_singleton_hd [of "\<lambda>c. cmd c = LC_SYMTAB" "commands h"] assms
  have "symtab_sec h = [hd (symtab_sec h)]" and "cmd (hd (symtab_sec h)) = LC_SYMTAB"
    by (simp_all add: symtab_sec_def)
  then show ?thesis using cmd_SymtabD by metis
qed

lemma patch_header_InrD:
  assumes "patch_header fsize h = Inr h'"
  shows "\<exists>seg secs st. sign_sec h = [] \<and> linkedit_seg h = [Segment64 seg secs] \<and>
           symtab_sec h = [Symtab st]
           \<and> fileoff seg + filesize seg = stroff st + strsize st
           \<and> h' = apply_delta (fsize - old_file_size h seg) h"
proof -
  from assms have s: "sign_sec h = []"
    by (auto simp: patch_header_def split: if_splits)
  from assms have "length (linkedit_seg h) = 1"
    by (auto simp: patch_header_def split: if_splits)
  then obtain seg secs where seg: "linkedit_seg h = [Segment64 seg secs]"
    using linkedit_seg_shape by blast
  from assms s seg have "length (symtab_sec h) = 1"
    by (auto simp: patch_header_def split: if_splits)
  then obtain st where st: "symtab_sec h = [Symtab st]"
    using symtab_sec_shape by blast
  from assms s seg st show ?thesis
    by (auto simp: patch_header_def split: if_splits)
qed

lemma patch_header_sign_error:
  assumes "sign_sec h \<noteq> []"
  shows "patch_header fsize h = Inl (AssertionError ''Executable contains code signature!'')"
  using assms by (simp add: patch_header_def)

lemma patch_header_segment_error:
  assumes "sign_sec h = []" and "length (linkedit_seg h) \<noteq> 1"
  shows "patch_header fsize h = Inl (AssertionError ''Expected exactly one __LINKEDIT segment!'')"
  using assms by (simp add: patch_header_def)

lemma patch_header_symtab_error:
  assumes "sign_sec h = []" and "length (linkedit_seg h) = 1" and "length (symtab_sec h) \<noteq> 1"
  shows "patch_header fsize h = Inl (AssertionError ''Expected exactly one SYMTAB section!'')"
proof -
  from linkedit_seg_shape [OF assms(2)] obtain seg secs where
    "linkedit_seg h = [Segment64 seg secs]"
    by blast
  with assms(1,3) show ?thesis by (simp add: patch_header_def)
qed

lemma patch_header_layout_error:
  assumes "sign_sec h = []" and "linkedit_seg h = [Segment64 seg secs]"
    and "symtab_sec h = [Symtab st]"
    and "fileoff seg + filesize seg \<noteq> stroff st + strsize st"
  shows "patch_header fsize h = Inl (AssertionError ''Sanity check failed!'')"
  using assms by (simp add: patch_header_def)

lemma patch_header_again:
  assumes "patch_header fsize h = Inr h'"
  shows "patch_header fsize h' = Inr h'"
proof -
  from patch_header_InrD [OF assms] obtain seg secs st where
    s: "sign_sec h = []" and seg: "linkedit_seg h = [Segment64 seg secs]"
    and st: "symtab_sec h = [Symtab st]"
    and c: "fileoff seg + filesize seg = stroff st + strsize st"
    and h': "h' = apply_delta (fsize - old_file_size h seg) h"
    by blast
  let ?d = "fsize - old_file_size h seg"
  let ?seg' = "seg\<lparr>filesize := filesize seg + ?d\<rparr>"
  let ?st' = "st\<lparr>strsize := strsize st + ?d\<rparr>"
  have s': "sign_sec h' = []" using s h' by (simp add: sign_sec_apply_delta)
  have seg': "linkedit_seg h' = [Segment64 ?seg' secs]"
    using seg h' by (simp add: linkedit_seg_apply_delta)
  have st': "symtab_sec h' = [Symtab ?st']"
    using st h' by (simp add: symtab_sec_apply_delta)
  have c': "fileoff ?seg' + filesize ?seg' = stroff ?st' + strsize ?st'"
    using c by simp
  have z: "fsize - old_file_size h' ?seg' = 0"
    using h' by (simp add: old_file_size_def offset_apply_delta)
  from patch_header_ok [OF s' seg' st' c', of fsize] z show ?thesis
    by (simp add: apply_delta_0)
qed

subsection \<open>The fat header\<close>

lemma patch_fat_InrD:
  assumes "patch_fat fsize fh = Inr fh'"
  shows "(magic fh = FAT_MAGIC \<or> magic fh = FAT_MAGIC_64) \<and>
     (\<exists>as a. archs fh = as @ [a] \<and>
        fh' = fh\<lparr>archs := as @ [a\<lparr>arch_size := fsize - arch_offset a\<rparr>]\<rparr>)"
proof -
  from assms have m: "magic fh = FAT_MAGIC \<or> magic fh = FAT_MAGIC_64"
    by (auto simp: patch_fat_def split: if_splits)
  from assms have "archs fh \<noteq> []"
    by (auto simp: patch_fat_def split: if_splits)
  then obtain as a where a: "archs fh = as @ [a]"
    by (metis append_butlast_last_id)
  with assms m have "fh' = fh\<lparr>archs := as @ [a\<lparr>arch_size := fsize - arch_offset a\<rparr>]\<rparr>"
    by (auto simp: patch_fat_def Let_def)
  with m a show ?thesis by blast
qed

lemma patch_fat_ok:
  assumes "magic fh = FAT_MAGIC \<or> magic fh = FAT_MAGIC_64" "archs fh = as @ [a]"
  shows "patch_fat fsize fh = Inr (fh\<lparr>archs := as @ [a\<lparr>arch_size := fsize - arch_offset a\<rparr>]\<rparr>)"
  using assms by (auto simp: patch_fat_def Let_def)

lemma patch_fat_again:
  assumes "patch_fat fsize fh = Inr fh'"
  shows "patch_fat fsize fh' = Inr fh'"
proof -
  from patch_fat_InrD [OF assms] obtain as a where
    m: "magic fh = FAT_MAGIC \<or> magic fh = FAT_MAGIC_64" and a: "archs fh = as @ [a]"
    and fh': "fh' = fh\<lparr>archs := as @ [a\<lparr>arch_size := fsize - arch_offset a\<rparr>]\<rparr>"
    by blast
  from m fh' have m': "magic fh' = FAT_MAGIC \<or> magic fh' = FAT_MAGIC_64" by simp
  from fh' have a': "archs fh' = as @ [a\<lparr>arch_size := fsize - arch_offset a\<rparr>]" by simp
  show ?thesis
    using patch_fat_ok [OF m' a', of fsize] fh' by simp
qed

subsection \<open>The whole function\<close>

lemma fix_error:
  assumes "headers f = hs @ [h]" "patch_header (file_size f) h = Inl e"
  shows "fix_exe_for_code_signing w f = (Inl e, f)"
  using assms by (simp add: fix_exe_for_code_signing_def)

lemma fix_result:
  assumes "headers f = hs @ [h]" "patch_header (file_size f) h = Inr h'"
  shows "fix_exe_for_code_signing w f =
     (case refuses w (hs @ [h']) of
        Some e \<Rightarrow> (Inl e, leaves w f (hs @ [h']))
      | None \<Rightarrow>
        (case fat f of
           None \<Rightarrow> (Inr (), f\<lparr>headers := hs @ [h']\<rparr>)
         | Some fh \<Rightarrow>
           (case patch_fat (file_size f) fh of
              Inl e \<Rightarrow> (Inl e, f\<lparr>headers := hs @ [h']\<rparr>)
            | Inr fh' \<Rightarrow>
              (case refuses_fat w fh' of
                 Some e \<Rightarrow> (Inl e, f\<lparr>headers := hs @ [h']\<rparr>)
               | None \<Rightarrow> (Inr (), f\<lparr>headers := hs @ [h'], fat := Some fh'\<rparr>)))))"
  using assms
  by (simp add: fix_exe_for_code_signing_def Let_def split: option.splits sum.splits)

lemma fix_refused:
  assumes "headers f = hs @ [h]" "patch_header (file_size f) h = Inr h'"
    and "refuses w (hs @ [h']) = Some e"
  shows "fix_exe_for_code_signing w f = (Inl e, leaves w f (hs @ [h']))"
  using fix_result [OF assms(1,2), of w] assms(3) by simp

lemma fix_InrD:
  assumes "fix_exe_for_code_signing w f = (Inr (), f')"
  shows "\<exists>hs h h'. headers f = hs @ [h] \<and> patch_header (file_size f) h = Inr h' \<and>
     refuses w (hs @ [h']) = None \<and>
     (case fat f of
        None \<Rightarrow> f' = f\<lparr>headers := hs @ [h']\<rparr>
      | Some fh \<Rightarrow> \<exists>fh'. patch_fat (file_size f) fh = Inr fh' \<and> refuses_fat w fh' = None \<and>
                   f' = f\<lparr>headers := hs @ [h'], fat := Some fh'\<rparr>)"
proof -
  from assms have ne: "headers f \<noteq> []"
    by (auto simp: fix_exe_for_code_signing_def)
  then obtain hs h where hs: "headers f = hs @ [h]"
    by (metis append_butlast_last_id)
  show ?thesis
  proof (cases "patch_header (file_size f) h")
    case (Inl e)
    with hs assms show ?thesis by (simp add: fix_error)
  next
    case (Inr h')
    with hs assms fix_result [OF hs Inr, of w] show ?thesis
      by (auto split: option.splits sum.splits)
  qed
qed

lemma fix_success_shape:
  assumes "fix_exe_for_code_signing w f = (Inr (), f')"
  shows "\<exists>hs h seg secs st. headers f = hs @ [h] \<and> sign_sec h = [] \<and>
           linkedit_seg h = [Segment64 seg secs] \<and> symtab_sec h = [Symtab st] \<and>
           fileoff seg + filesize seg = stroff st + strsize st \<and>
           headers f' = hs @ [apply_delta (file_size f - old_file_size h seg) h] \<and>
           file_size f' = file_size f \<and>
           f' = f\<lparr>headers := headers f', fat := fat f'\<rparr> \<and>
           (case fat f of
              None \<Rightarrow> fat f' = None
            | Some fh \<Rightarrow> \<exists>fh'. patch_fat (file_size f) fh = Inr fh' \<and> fat f' = Some fh')"
proof -
  from fix_InrD [OF assms] obtain hs h h' where
    hs: "headers f = hs @ [h]" and p: "patch_header (file_size f) h = Inr h'"
    and c: "case fat f of
        None \<Rightarrow> f' = f\<lparr>headers := hs @ [h']\<rparr>
      | Some fh \<Rightarrow> \<exists>fh'. patch_fat (file_size f) fh = Inr fh' \<and> refuses_fat w fh' = None \<and>
                   f' = f\<lparr>headers := hs @ [h'], fat := Some fh'\<rparr>"
    by blast
  from patch_header_InrD [OF p] obtain seg secs st where
    v: "sign_sec h = []" "linkedit_seg h = [Segment64 seg secs]" "symtab_sec h = [Symtab st]"
      "fileoff seg + filesize seg = stroff st + strsize st"
    and h': "h' = apply_delta (file_size f - old_file_size h seg) h"
    by blast
  from c have 1: "headers f' = hs @ [h']" and 2: "file_size f' = file_size f"
    and 3: "f' = f\<lparr>headers := headers f', fat := fat f'\<rparr>"
    and 4: "case fat f of
              None \<Rightarrow> fat f' = None
            | Some fh \<Rightarrow> \<exists>fh'. patch_fat (file_size f) fh = Inr fh' \<and> fat f' = Some fh'"
    by (auto split: option.splits)
  from hs v h' 1 2 3 4 show ?thesis by blast
qed

subsection \<open>The example files, run\<close>

lemmas example_defs = sign_sec_def linkedit_seg_def symtab_sec_def old_file_size_def
  text_command_def text_segment_def text_section_def linkedit_segment_def uuid_command_def
  LINKEDIT_NAME_def TEXT_NAME_def TEXT_SECT_NAME_def

lemma thin_header_facts:
  "sign_sec thin_header = []"
  "linkedit_seg thin_header = [Segment64 (linkedit_segment 95000 5000) []]"
  "symtab_sec thin_header = [Symtab \<lparr>symoff = 95000, nsyms = 200, stroff = 99600, strsize = 400\<rparr>]"
  "old_file_size thin_header (linkedit_segment 95000 5000) = 100000"
  by (simp_all add: thin_header_def example_defs)

lemma thin_header_layout:
  "fileoff (linkedit_segment 95000 5000) + filesize (linkedit_segment 95000 5000) =
     stroff \<lparr>symoff = 95000, nsyms = 200, stroff = 99600, strsize = 400\<rparr> +
     strsize \<lparr>symoff = 95000, nsyms = 200, stroff = 99600, strsize = 400\<rparr>"
  by (simp add: linkedit_segment_def)

lemma fat_last_header_facts:
  "sign_sec fat_last_header = []"
  "linkedit_seg fat_last_header = [Segment64 (linkedit_segment 35000 5000) []]"
  "symtab_sec fat_last_header = [Symtab \<lparr>symoff = 35000, nsyms = 200, stroff = 39600, strsize = 400\<rparr>]"
  "old_file_size fat_last_header (linkedit_segment 35000 5000) = 121920"
  by (simp_all add: fat_last_header_def example_defs)

lemma signed_header_facts:
  "sign_sec signed_header = [CodeSignature \<lparr>dataoff = 99408, datasize = 592\<rparr>]"
  "linkedit_seg signed_header = [Segment64 (linkedit_segment 95000 5000) []]"
  "symtab_sec signed_header = [Symtab \<lparr>symoff = 95000, nsyms = 200, stroff = 99000, strsize = 400\<rparr>]"
  by (simp_all add: signed_header_def example_defs)

lemma signed_two_linkedit_header_facts:
  "sign_sec signed_two_linkedit_header = [CodeSignature \<lparr>dataoff = 99504, datasize = 496\<rparr>]"
  "linkedit_seg signed_two_linkedit_header =
     [Segment64 (linkedit_segment 95000 2500) [], Segment64 (linkedit_segment 97500 2500) []]"
  by (simp_all add: signed_two_linkedit_header_def example_defs)

lemma gap_header_facts:
  "sign_sec gap_header = []"
  "linkedit_seg gap_header = [Segment64 (linkedit_segment 95000 5000) []]"
  "symtab_sec gap_header = [Symtab \<lparr>symoff = 95000, nsyms = 200, stroff = 99000, strsize = 400\<rparr>]"
  by (simp_all add: gap_header_def example_defs)

lemma two_linkedit_header_facts:
  "sign_sec two_linkedit_header = []"
  "linkedit_seg two_linkedit_header =
     [Segment64 (linkedit_segment 95000 2500) [], Segment64 (linkedit_segment 97500 2500) []]"
  by (simp_all add: two_linkedit_header_def example_defs)

lemma no_symtab_header_facts:
  "sign_sec no_symtab_header = []"
  "linkedit_seg no_symtab_header = [Segment64 (linkedit_segment 95000 5000) []]"
  "symtab_sec no_symtab_header = []"
  by (simp_all add: no_symtab_header_def example_defs)

lemma thin_header_patch:
  "patch_header (file_size thin_exe) thin_header = Inr thin_header_patched"
proof -
  have "apply_delta 20 thin_header = thin_header_patched"
    by (simp add: apply_delta_def thin_header_def thin_header_patched_def example_defs)
  with patch_header_ok [OF thin_header_facts(1,2,3) thin_header_layout, of "file_size thin_exe"]
  show ?thesis
    by (simp add: thin_header_facts thin_exe_def)
qed

lemma truncated_header_patch:
  "patch_header (file_size truncated_exe) thin_header = Inr truncated_header_patched"
proof -
  have "apply_delta (- 20) thin_header = truncated_header_patched"
    by (simp add: apply_delta_def thin_header_def truncated_header_patched_def example_defs)
  with patch_header_ok [OF thin_header_facts(1,2,3) thin_header_layout,
      of "file_size truncated_exe"]
  show ?thesis
    by (simp add: thin_header_facts truncated_exe_def)
qed

lemma fat_last_header_patch:
  "patch_header (file_size fat_exe) fat_last_header = Inr fat_last_header_patched"
proof -
  have c: "fileoff (linkedit_segment 35000 5000) + filesize (linkedit_segment 35000 5000) =
      stroff \<lparr>symoff = 35000, nsyms = 200, stroff = 39600, strsize = 400\<rparr> +
      strsize \<lparr>symoff = 35000, nsyms = 200, stroff = 39600, strsize = 400\<rparr>"
    by (simp add: linkedit_segment_def)
  have "apply_delta 40005 fat_last_header = fat_last_header_patched"
    by (simp add: apply_delta_def fat_last_header_def fat_last_header_patched_def example_defs)
  with patch_header_ok [OF fat_last_header_facts(1,2,3) c, of "file_size fat_exe"]
  show ?thesis
    by (simp add: fat_last_header_facts fat_exe_def)
qed

lemma thin_exe_run:
  "fix_exe_for_code_signing accepting thin_exe = (Inr (), thin_exe_patched)"
proof -
  have 1: "headers thin_exe = [] @ [thin_header]"
    by (simp add: thin_exe_def)
  from fix_result [OF 1 thin_header_patch, of accepting] show ?thesis
    by (simp add: accepting_def thin_exe_def thin_exe_patched_def)
qed

lemma truncated_exe_run:
  "fix_exe_for_code_signing accepting truncated_exe = (Inr (), truncated_exe_patched)"
proof -
  have 1: "headers truncated_exe = [] @ [thin_header]"
    by (simp add: truncated_exe_def)
  from fix_result [OF 1 truncated_header_patch, of accepting] show ?thesis
    by (simp add: accepting_def truncated_exe_def truncated_exe_patched_def)
qed

lemma fat_exe_run:
  "fix_exe_for_code_signing accepting fat_exe = (Inr (), fat_exe_patched)"
proof -
  have 1: "headers fat_exe = [fat_first_header] @ [fat_last_header]"
    by (simp add: fat_exe_def)
  have q: "patch_fat (file_size fat_exe) \<lparr>magic = FAT_MAGIC, archs = [fat_first_arch, fat_last_arch]\<rparr>
      = Inr \<lparr>magic = FAT_MAGIC, archs = [fat_first_arch, fat_last_arch\<lparr>arch_size := 80005\<rparr>]\<rparr>"
    by (simp add: patch_fat_def fat_exe_def fat_last_arch_def)
  from fix_result [OF 1 fat_last_header_patch, of accepting] q show ?thesis
    by (simp add: accepting_def fat_exe_def fat_exe_patched_def)
qed

lemma thin_exe_refused:
  "fix_exe_for_code_signing too_large thin_exe = (Inl ValueError, thin_exe)"
proof -
  have 1: "headers thin_exe = [] @ [thin_header]"
    by (simp add: thin_exe_def)
  from fix_refused [OF 1 thin_header_patch, of too_large ValueError] show ?thesis
    by (simp add: too_large_def)
qed

subsection \<open>The prefix helpers when the command is found\<close>

lemma posix_dirname_brew: "posix_dirname ''/usr/local/bin/brew'' = ''/usr/local/bin''"
  by (simp add: posix_dirname_def)

lemma homebrew_prefix_found:
  assumes "which ''brew'' = Some ''/usr/local/bin/brew''"
  shows "get_homebrew_prefix which = Inr ''/usr/local''"
    and "is_homebrew_env which ''/usr/local/Cellar/python'' = Inr True"
    and "is_homebrew_env which ''/opt/python'' = Inr False"
  using assms
  by (simp_all add: get_homebrew_prefix_def is_homebrew_env_def dirname_def posix_dirname_def)

section \<open>The properties\<close>

subsection \<open>The prefix helpers\<close>

text \<open>
  C10. When \<open>brew\<close> (respectively \<open>port\<close>) is not found on \<open>PATH\<close>,
  \<open>shutil.which\<close> returns \<open>None\<close> and \<open>os.path.dirname(None)\<close> raises, so
  \<open>get_homebrew_prefix\<close> (respectively \<open>get_macports_prefix\<close>) returns neither a
  path nor \<open>None\<close>: it raises, and \<open>is_homebrew_env\<close> (respectively
  \<open>is_macports_env\<close>) lets that error through instead of returning \<open>False\<close>.
\<close>

theorem prefix_lookup_raises_when_not_found:
  "(which ''brew'' = None \<longrightarrow>
      get_homebrew_prefix which = Inl TypeError \<and>
      is_homebrew_env which base_prefix = Inl TypeError) \<and>
   (which ''port'' = None \<longrightarrow>
      get_macports_prefix which = Inl TypeError \<and>
      is_macports_env which base_prefix = Inl TypeError)"
  by (simp add: get_homebrew_prefix_def get_macports_prefix_def is_homebrew_env_def
      is_macports_env_def dirname_def)

theorem prefix_lookup_raises_when_not_found_witness:
  "(\<lambda>c. if c = ''brew'' then Some ''/usr/local/bin/brew'' else None) ''port'' = None \<and>
   get_macports_prefix (\<lambda>c. if c = ''brew'' then Some ''/usr/local/bin/brew'' else None)
     = Inl TypeError \<and>
   is_macports_env (\<lambda>c. if c = ''brew'' then Some ''/usr/local/bin/brew'' else None)
     ''/usr/local/Cellar/python'' = Inl TypeError \<and>
   (\<lambda>c::string. None :: string option) ''brew'' = None \<and>
   get_homebrew_prefix (\<lambda>c. None) = Inl TypeError \<and>
   is_homebrew_env (\<lambda>c. None) ''/usr/local/Cellar/python'' = Inl TypeError"
  using prefix_lookup_raises_when_not_found
    [of "\<lambda>c. if c = ''brew'' then Some ''/usr/local/bin/brew'' else None"
        "''/usr/local/Cellar/python''"]
    prefix_lookup_raises_when_not_found [of "\<lambda>c. None" "''/usr/local/Cellar/python''"]
  by simp

subsection \<open>The four assertions\<close>

text \<open>
  C4. When the last slice of the file holds at least one load command of kind
  \<open>LC_CODE_SIGNATURE\<close>, \<open>fix_exe_for_code_signing\<close> fails with the error of its first
  assertion, whose message no other assertion of the function carries, and the file is
  left as it was: nothing has been written, whatever the writer would do.
\<close>

theorem signed_slice_is_rejected:
  assumes "headers f = hs @ [h]" and "c \<in> set (commands h)" and "cmd c = LC_CODE_SIGNATURE"
  shows "fix_exe_for_code_signing w f =
           (Inl (AssertionError ''Executable contains code signature!''), f) \<and>
         ''Executable contains code signature!'' \<noteq> ''Expected exactly one __LINKEDIT segment!'' \<and>
         ''Executable contains code signature!'' \<noteq> ''Expected exactly one SYMTAB section!'' \<and>
         ''Executable contains code signature!'' \<noteq> ''Sanity check failed!''"
proof -
  from assms(2,3) have "c \<in> set (sign_sec h)"
    by (simp add: sign_sec_def)
  then have "sign_sec h \<noteq> []" by auto
  then have "patch_header (file_size f) h =
      Inl (AssertionError ''Executable contains code signature!'')"
    by (rule patch_header_sign_error)
  with assms(1) have "fix_exe_for_code_signing w f =
      (Inl (AssertionError ''Executable contains code signature!''), f)"
    by (rule fix_error)
  then show ?thesis by simp
qed

theorem signed_slice_is_rejected_witness:
  "headers signed_exe = [] @ [signed_header] \<and>
   CodeSignature \<lparr>dataoff = 99408, datasize = 592\<rparr> \<in> set (commands signed_header) \<and>
   cmd (CodeSignature \<lparr>dataoff = 99408, datasize = 592\<rparr>) = LC_CODE_SIGNATURE \<and>
   fix_exe_for_code_signing accepting signed_exe =
     (Inl (AssertionError ''Executable contains code signature!''), signed_exe)"
proof -
  have 1: "headers signed_exe = [] @ [signed_header]"
    by (simp add: signed_exe_def)
  have 2: "CodeSignature \<lparr>dataoff = 99408, datasize = 592\<rparr> \<in> set (commands signed_header)"
    by (simp add: signed_header_def)
  have 3: "cmd (CodeSignature \<lparr>dataoff = 99408, datasize = 592\<rparr>) = LC_CODE_SIGNATURE"
    by simp
  from signed_slice_is_rejected [OF 1 2 3, of accepting] 1 2 3 show ?thesis by simp
qed

subsection \<open>The size reconciliation\<close>

text \<open>
  C2. For a thin binary whose last slice passes the four assertions and declares less
  than the file holds, after \<open>fix_exe_for_code_signing\<close> has completed the file is the
  old one with the last slice patched: the string table size is the old one plus
  \<open>delta\<close>, the file size of the \<open>__LINKEDIT\<close> segment is the old one plus \<open>delta\<close>,
  and the declared file size (\<open>header.offset + fileoff + filesize\<close>) is the actual file
  size, where \<open>delta\<close> is the actual file size minus the old declared one.
\<close>

theorem thin_patch_sizes:
  assumes "fat f = None" and "headers f = hs @ [h]"
    and "sign_sec h = []" and "linkedit_seg h = [Segment64 seg secs]"
    and "symtab_sec h = [Symtab st]"
    and "fileoff seg + filesize seg = stroff st + strsize st"
    and "old_file_size h seg < file_size f"
    and "delta = file_size f - old_file_size h seg"
    and "fix_exe_for_code_signing w f = (Inr (), f')"
  shows "f' = f\<lparr>headers := hs @ [apply_delta delta h]\<rparr> \<and>
         symtab_sec (last (headers f')) = [Symtab (st\<lparr>strsize := strsize st + delta\<rparr>)] \<and>
         linkedit_seg (last (headers f')) =
           [Segment64 (seg\<lparr>filesize := filesize seg + delta\<rparr>) secs] \<and>
         file_size f' = file_size f \<and>
         old_file_size (last (headers f')) (seg\<lparr>filesize := filesize seg + delta\<rparr>) =
           file_size f'"
proof -
  have p: "patch_header (file_size f) h = Inr (apply_delta delta h)"
    using patch_header_ok [OF assms(3-6), of "file_size f"] assms(8) by simp
  have 1: "f' = f\<lparr>headers := hs @ [apply_delta delta h]\<rparr>"
    using fix_result [OF assms(2) p, of w] assms(1,9)
    by (auto split: option.splits)
  then have l: "last (headers f') = apply_delta delta h" and s: "file_size f' = file_size f"
    by simp_all
  have 2: "old_file_size (apply_delta delta h) (seg\<lparr>filesize := filesize seg + delta\<rparr>) =
      file_size f"
    using assms(8) by (simp add: old_file_size_def offset_apply_delta)
  from 1 2 l s patched_slice [OF assms(4,5), of delta] show ?thesis by simp
qed

theorem thin_patch_sizes_witness:
  "fat thin_exe = None \<and> headers thin_exe = [] @ [thin_header] \<and>
   sign_sec thin_header = [] \<and>
   linkedit_seg thin_header = [Segment64 (linkedit_segment 95000 5000) []] \<and>
   symtab_sec thin_header =
     [Symtab \<lparr>symoff = 95000, nsyms = 200, stroff = 99600, strsize = 400\<rparr>] \<and>
   old_file_size thin_header (linkedit_segment 95000 5000) = 100000 \<and>
   file_size thin_exe = 100020 \<and>
   fix_exe_for_code_signing accepting thin_exe = (Inr (), thin_exe_patched) \<and>
   thin_exe_patched = thin_exe\<lparr>headers := [apply_delta 20 thin_header]\<rparr> \<and>
   symtab_sec (last (headers thin_exe_patched)) =
     [Symtab \<lparr>symoff = 95000, nsyms = 200, stroff = 99600, strsize = 420\<rparr>] \<and>
   linkedit_seg (last (headers thin_exe_patched)) =
     [Segment64 (linkedit_segment 95000 5020) []] \<and>
   file_size thin_exe_patched = 100020 \<and>
   old_file_size (last (headers thin_exe_patched)) (linkedit_segment 95000 5020) = 100020"
proof -
  have 1: "fat thin_exe = None" and 2: "headers thin_exe = [] @ [thin_header]"
    and fs: "file_size thin_exe = 100020"
    by (simp_all add: thin_exe_def)
  have 7: "old_file_size thin_header (linkedit_segment 95000 5000) < file_size thin_exe"
    by (simp add: thin_header_facts fs)
  have 8: "20 = file_size thin_exe - old_file_size thin_header (linkedit_segment 95000 5000)"
    by (simp add: thin_header_facts fs)
  from thin_patch_sizes [OF 1 2 thin_header_facts(1,2,3) thin_header_layout 7 8 thin_exe_run]
    1 2 fs thin_header_facts thin_exe_run
  show ?thesis by (simp add: linkedit_segment_def)
qed

text \<open>
  C1, as the code has it. The function never looks at the sign of \<open>delta\<close>. For a file
  that is shorter than its last slice declares and whose last slice passes the four
  assertions, no assertion fails: the negative \<open>delta\<close> is added to \<open>strsize\<close> and to
  \<open>filesize\<close>, and the slice with the smaller sizes is what the writer is given. When
  the run returns, that slice is in the file.
\<close>

theorem negative_delta_is_applied:
  assumes "headers f = hs @ [h]"
    and "sign_sec h = []" and "linkedit_seg h = [Segment64 seg secs]"
    and "symtab_sec h = [Symtab st]"
    and "fileoff seg + filesize seg = stroff st + strsize st"
    and "file_size f < old_file_size h seg"
    and "delta = file_size f - old_file_size h seg"
  shows "delta < 0 \<and>
         patch_header (file_size f) h = Inr (apply_delta delta h) \<and>
         symtab_sec (apply_delta delta h) = [Symtab (st\<lparr>strsize := strsize st + delta\<rparr>)] \<and>
         linkedit_seg (apply_delta delta h) =
           [Segment64 (seg\<lparr>filesize := filesize seg + delta\<rparr>) secs] \<and>
         (fix_exe_for_code_signing w f = (Inr (), f') \<longrightarrow>
            headers f' = hs @ [apply_delta delta h])"
proof -
  have p: "patch_header (file_size f) h = Inr (apply_delta delta h)"
    using patch_header_ok [OF assms(2-5), of "file_size f"] assms(7) by simp
  have r: "fix_exe_for_code_signing w f = (Inr (), f') \<longrightarrow>
      headers f' = hs @ [apply_delta delta h]"
    using fix_result [OF assms(1) p, of w]
    by (auto split: option.splits sum.splits)
  from assms(6,7) have "delta < 0" by simp
  with p r patched_slice [OF assms(3,4), of delta] show ?thesis by simp
qed

theorem negative_delta_is_applied_witness:
  "headers truncated_exe = [] @ [thin_header] \<and>
   sign_sec thin_header = [] \<and>
   linkedit_seg thin_header = [Segment64 (linkedit_segment 95000 5000) []] \<and>
   symtab_sec thin_header =
     [Symtab \<lparr>symoff = 95000, nsyms = 200, stroff = 99600, strsize = 400\<rparr>] \<and>
   file_size truncated_exe = 99980 \<and>
   old_file_size thin_header (linkedit_segment 95000 5000) = 100000 \<and>
   patch_header (file_size truncated_exe) thin_header = Inr (apply_delta (- 20) thin_header) \<and>
   symtab_sec (apply_delta (- 20) thin_header) =
     [Symtab \<lparr>symoff = 95000, nsyms = 200, stroff = 99600, strsize = 380\<rparr>] \<and>
   linkedit_seg (apply_delta (- 20) thin_header) =
     [Segment64 (linkedit_segment 95000 4980) []] \<and>
   fix_exe_for_code_signing accepting truncated_exe = (Inr (), truncated_exe_patched) \<and>
   headers truncated_exe_patched = [apply_delta (- 20) thin_header]"
proof -
  have 1: "headers truncated_exe = [] @ [thin_header]"
    and fs: "file_size truncated_exe = 99980"
    by (simp_all add: truncated_exe_def)
  have 6: "file_size truncated_exe < old_file_size thin_header (linkedit_segment 95000 5000)"
    by (simp add: thin_header_facts fs)
  have 7: "- 20 = file_size truncated_exe - old_file_size thin_header (linkedit_segment 95000 5000)"
    by (simp add: thin_header_facts fs)
  from negative_delta_is_applied [OF 1 thin_header_facts(1,2,3) thin_header_layout 6 7,
      of accepting truncated_exe_patched] 1 fs thin_header_facts truncated_exe_run
  show ?thesis by (simp add: linkedit_segment_def)
qed

text \<open>
  C1, as stated, fails: the executable of 100000 declared bytes cut to 99980 bytes is not
  rejected. All four assertions pass, the writer is given a string table and a segment
  that are 20 bytes smaller, both sizes fit their fields, and the run completes with the
  file changed.
\<close>

theorem truncated_file_is_patched:
  "file_size truncated_exe < old_file_size thin_header (linkedit_segment 95000 5000) \<and>
   patch_header (file_size truncated_exe) thin_header = Inr truncated_header_patched \<and>
   symtab_sec truncated_header_patched =
     [Symtab \<lparr>symoff = 95000, nsyms = 200, stroff = 99600, strsize = 380\<rparr>] \<and>
   linkedit_seg truncated_header_patched = [Segment64 (linkedit_segment 95000 4980) []] \<and>
   fix_exe_for_code_signing accepting truncated_exe = (Inr (), truncated_exe_patched) \<and>
   truncated_exe_patched \<noteq> truncated_exe"
proof -
  have s: "symtab_sec truncated_header_patched =
      [Symtab \<lparr>symoff = 95000, nsyms = 200, stroff = 99600, strsize = 380\<rparr>]"
    and l: "linkedit_seg truncated_header_patched =
      [Segment64 (linkedit_segment 95000 4980) []]"
    by (simp_all add: truncated_header_patched_def example_defs)
  have n: "truncated_exe_patched \<noteq> truncated_exe"
  proof
    assume "truncated_exe_patched = truncated_exe"
    then have "headers truncated_exe_patched = headers truncated_exe" by simp
    then have "truncated_header_patched = thin_header"
      by (simp add: truncated_exe_patched_def truncated_exe_def)
    then have "symtab_sec truncated_header_patched = symtab_sec thin_header" by simp
    then show False by (simp add: s thin_header_facts)
  qed
  from s l n truncated_header_patch truncated_exe_run show ?thesis
    by (simp add: thin_header_facts truncated_exe_def)
qed

subsection \<open>The fat header\<close>

text \<open>
  C3. For a fat binary, after \<open>fix_exe_for_code_signing\<close> has completed (so the last
  slice has passed the four assertions), the size of the last entry of the fat header is
  the actual file size minus that entry's offset; every other entry, every other field
  of the last entry and so the offset of every entry are what they were.
\<close>

theorem fat_last_arch_size:
  assumes "fat f = Some fh" and "fix_exe_for_code_signing w f = (Inr (), f')"
  shows "archs fh \<noteq> [] \<and>
         file_size f' = file_size f \<and>
         fat f' = Some (fh\<lparr>archs := butlast (archs fh) @
           [(last (archs fh))\<lparr>arch_size := file_size f - arch_offset (last (archs fh))\<rparr>]\<rparr>) \<and>
         map arch_offset (archs (the (fat f'))) = map arch_offset (archs fh) \<and>
         butlast (archs (the (fat f'))) = butlast (archs fh) \<and>
         arch_size (last (archs (the (fat f')))) = file_size f - arch_offset (last (archs fh))"
proof -
  from fix_InrD [OF assms(2)] assms(1) obtain hs h' fh' where
    q: "patch_fat (file_size f) fh = Inr fh'"
    and f': "f' = f\<lparr>headers := hs @ [h'], fat := Some fh'\<rparr>"
    by auto
  from patch_fat_InrD [OF q] obtain as a where
    a: "archs fh = as @ [a]"
    and fh': "fh' = fh\<lparr>archs := as @ [a\<lparr>arch_size := file_size f - arch_offset a\<rparr>]\<rparr>"
    by blast
  from f' have "fat f' = Some fh'" and "file_size f' = file_size f"
    by simp_all
  with a fh' show ?thesis by simp
qed

theorem fat_last_arch_size_witness:
  "fat fat_exe = Some \<lparr>magic = FAT_MAGIC, archs = [fat_first_arch, fat_last_arch]\<rparr> \<and>
   fix_exe_for_code_signing accepting fat_exe = (Inr (), fat_exe_patched) \<and>
   file_size fat_exe_patched = file_size fat_exe \<and>
   fat fat_exe_patched =
     Some \<lparr>magic = FAT_MAGIC, archs = [fat_first_arch, fat_last_arch\<lparr>arch_size := 80005\<rparr>]\<rparr> \<and>
   map arch_offset (archs (the (fat fat_exe_patched))) = [16384, 81920] \<and>
   butlast (archs (the (fat fat_exe_patched))) = [fat_first_arch] \<and>
   arch_size (last (archs (the (fat fat_exe_patched)))) = 80005 \<and>
   arch_size fat_last_arch = 40000"
proof -
  have 1: "fat fat_exe = Some \<lparr>magic = FAT_MAGIC, archs = [fat_first_arch, fat_last_arch]\<rparr>"
    by (simp add: fat_exe_def)
  from fat_last_arch_size [OF 1 fat_exe_run] 1 fat_exe_run
  show ?thesis
    by (simp add: fat_exe_def fat_first_arch_def fat_last_arch_def)
qed

subsection \<open>The assertions on the commands\<close>

text \<open>
  C5, as the code has it. When the last slice does not hold exactly one segment-64
  command named \<open>__LINKEDIT\<close>, or does not hold exactly one symbol-table command,
  \<open>fix_exe_for_code_signing\<close> fails before anything is written and the file is left as
  it was. The assertions run in order, so the error is the one of the code-signature
  assertion when the slice also holds a code-signature command; otherwise it is the one of
  the \<open>__LINKEDIT\<close> assertion when the number of such segments is not one, and the one
  of the \<open>SYMTAB\<close> assertion when that number is one.
\<close>

theorem wrong_count_is_rejected:
  assumes "headers f = hs @ [h]"
    and "length (linkedit_seg h) \<noteq> 1 \<or> length (symtab_sec h) \<noteq> 1"
  shows "fix_exe_for_code_signing w f =
     (Inl (AssertionError
        (if sign_sec h \<noteq> [] then ''Executable contains code signature!''
         else if length (linkedit_seg h) \<noteq> 1 then ''Expected exactly one __LINKEDIT segment!''
         else ''Expected exactly one SYMTAB section!'')), f)"
proof (cases "sign_sec h = []")
  case False
  then show ?thesis
    using fix_error [OF assms(1) patch_header_sign_error] by simp
next
  case True
  show ?thesis
  proof (cases "length (linkedit_seg h) = 1")
    case False
    with True show ?thesis
      using fix_error [OF assms(1) patch_header_segment_error] by simp
  next
    case one: True
    with assms(2) have "length (symtab_sec h) \<noteq> 1" by simp
    with True one show ?thesis
      using fix_error [OF assms(1) patch_header_symtab_error] by simp
  qed
qed

theorem wrong_count_is_rejected_witness:
  "headers two_linkedit_exe = [] @ [two_linkedit_header] \<and>
   length (linkedit_seg two_linkedit_header) = 2 \<and>
   sign_sec two_linkedit_header = [] \<and>
   fix_exe_for_code_signing accepting two_linkedit_exe =
     (Inl (AssertionError ''Expected exactly one __LINKEDIT segment!''), two_linkedit_exe) \<and>
   headers no_symtab_exe = [] @ [no_symtab_header] \<and>
   length (linkedit_seg no_symtab_header) = 1 \<and>
   length (symtab_sec no_symtab_header) = 0 \<and>
   sign_sec no_symtab_header = [] \<and>
   fix_exe_for_code_signing accepting no_symtab_exe =
     (Inl (AssertionError ''Expected exactly one SYMTAB section!''), no_symtab_exe)"
proof -
  have 1: "headers two_linkedit_exe = [] @ [two_linkedit_header]"
    by (simp add: two_linkedit_exe_def)
  have 2: "length (linkedit_seg two_linkedit_header) \<noteq> 1 \<or>
      length (symtab_sec two_linkedit_header) \<noteq> 1"
    by (simp add: two_linkedit_header_facts)
  have 3: "headers no_symtab_exe = [] @ [no_symtab_header]"
    by (simp add: no_symtab_exe_def)
  have 4: "length (linkedit_seg no_symtab_header) \<noteq> 1 \<or>
      length (symtab_sec no_symtab_header) \<noteq> 1"
    by (simp add: no_symtab_header_facts)
  from wrong_count_is_rejected [OF 1 2, of accepting]
    wrong_count_is_rejected [OF 3 4, of accepting] 1 3
  show ?thesis
    by (simp add: two_linkedit_header_facts no_symtab_header_facts)
qed

text \<open>
  C5, as stated, fails: a signed slice with two \<open>__LINKEDIT\<close> segments is rejected with
  the error of the code-signature assertion, which is neither the error of the
  \<open>__LINKEDIT\<close> assertion nor the one of the \<open>SYMTAB\<close> assertion.
\<close>

theorem signed_wrong_count_reports_signature:
  "length (linkedit_seg signed_two_linkedit_header) = 2 \<and>
   fix_exe_for_code_signing accepting signed_two_linkedit_exe =
     (Inl (AssertionError ''Executable contains code signature!''), signed_two_linkedit_exe) \<and>
   AssertionError ''Executable contains code signature!'' \<noteq>
     AssertionError ''Expected exactly one __LINKEDIT segment!'' \<and>
   AssertionError ''Executable contains code signature!'' \<noteq>
     AssertionError ''Expected exactly one SYMTAB section!''"
proof -
  have 1: "headers signed_two_linkedit_exe = [] @ [signed_two_linkedit_header]"
    by (simp add: signed_two_linkedit_exe_def)
  have 2: "sign_sec signed_two_linkedit_header \<noteq> []"
    by (simp add: signed_two_linkedit_header_facts)
  from fix_error [OF 1 patch_header_sign_error [OF 2], of accepting] show ?thesis
    by (simp add: signed_two_linkedit_header_facts)
qed

text \<open>
  C6, as the code has it. For a last slice with no code-signature command, exactly one
  \<open>__LINKEDIT\<close> segment and exactly one symbol-table command: when \<open>fileoff + filesize\<close>
  of the segment differs from \<open>stroff + strsize\<close> of the symbol table, the function
  fails with the error of the fourth assertion and the file is left as it was; when the
  two are equal, no assertion fails, the two sizes of the slice are changed and the slice
  is what the writer is given, so that it is in the file when the run returns.
\<close>

theorem layout_check_decides:
  assumes "headers f = hs @ [h]"
    and "sign_sec h = []" and "linkedit_seg h = [Segment64 seg secs]"
    and "symtab_sec h = [Symtab st]"
  shows "(fileoff seg + filesize seg \<noteq> stroff st + strsize st \<longrightarrow>
            fix_exe_for_code_signing w f = (Inl (AssertionError ''Sanity check failed!''), f)) \<and>
         (fileoff seg + filesize seg = stroff st + strsize st \<longrightarrow>
            patch_header (file_size f) h =
              Inr (apply_delta (file_size f - old_file_size h seg) h) \<and>
            (fix_exe_for_code_signing w f = (Inr (), f') \<longrightarrow>
               headers f' = hs @ [apply_delta (file_size f - old_file_size h seg) h]))"
proof (intro conjI impI)
  assume "fileoff seg + filesize seg \<noteq> stroff st + strsize st"
  then show "fix_exe_for_code_signing w f = (Inl (AssertionError ''Sanity check failed!''), f)"
    using fix_error [OF assms(1) patch_header_layout_error [OF assms(2-4)]] by simp
next
  assume c: "fileoff seg + filesize seg = stroff st + strsize st"
  show "patch_header (file_size f) h = Inr (apply_delta (file_size f - old_file_size h seg) h)"
    by (rule patch_header_ok [OF assms(2-4) c])
next
  assume c: "fileoff seg + filesize seg = stroff st + strsize st"
    and r: "fix_exe_for_code_signing w f = (Inr (), f')"
  from fix_result [OF assms(1) patch_header_ok [OF assms(2-4) c], of w] r
  show "headers f' = hs @ [apply_delta (file_size f - old_file_size h seg) h]"
    by (auto split: option.splits sum.splits)
qed

theorem layout_check_decides_witness:
  "headers gap_exe = [] @ [gap_header] \<and> sign_sec gap_header = [] \<and>
   linkedit_seg gap_header = [Segment64 (linkedit_segment 95000 5000) []] \<and>
   symtab_sec gap_header =
     [Symtab \<lparr>symoff = 95000, nsyms = 200, stroff = 99000, strsize = 400\<rparr>] \<and>
   (95000::int) + 5000 \<noteq> 99000 + 400 \<and>
   fix_exe_for_code_signing accepting gap_exe =
     (Inl (AssertionError ''Sanity check failed!''), gap_exe) \<and>
   headers thin_exe = [] @ [thin_header] \<and> sign_sec thin_header = [] \<and>
   linkedit_seg thin_header = [Segment64 (linkedit_segment 95000 5000) []] \<and>
   symtab_sec thin_header =
     [Symtab \<lparr>symoff = 95000, nsyms = 200, stroff = 99600, strsize = 400\<rparr>] \<and>
   (95000::int) + 5000 = 99600 + 400 \<and>
   patch_header (file_size thin_exe) thin_header = Inr (apply_delta 20 thin_header) \<and>
   fix_exe_for_code_signing accepting thin_exe = (Inr (), thin_exe_patched) \<and>
   headers thin_exe_patched = [apply_delta 20 thin_header]"
proof -
  have 1: "headers gap_exe = [] @ [gap_header]"
    by (simp add: gap_exe_def)
  have 2: "headers thin_exe = [] @ [thin_header]" and fs: "file_size thin_exe = 100020"
    by (simp_all add: thin_exe_def)
  from layout_check_decides [OF 1 gap_header_facts, of accepting]
    layout_check_decides [OF 2 thin_header_facts(1,2,3), of accepting thin_exe_patched]
    1 2 gap_header_facts thin_header_facts thin_exe_run
  show ?thesis by (simp add: linkedit_segment_def fs)
qed

text \<open>
  C6, as stated, fails: in a signed slice the signature lies after the string table, so
  \<open>fileoff + filesize\<close> differs from \<open>stroff + strsize\<close>, and the function fails with
  the error of the code-signature assertion, not with the one of the fourth assertion.
\<close>

theorem signed_gap_reports_signature:
  "linkedit_seg signed_header = [Segment64 (linkedit_segment 95000 5000) []] \<and>
   symtab_sec signed_header =
     [Symtab \<lparr>symoff = 95000, nsyms = 200, stroff = 99000, strsize = 400\<rparr>] \<and>
   fileoff (linkedit_segment 95000 5000) + filesize (linkedit_segment 95000 5000) \<noteq>
     stroff \<lparr>symoff = 95000, nsyms = 200, stroff = 99000, strsize = 400\<rparr> +
     strsize \<lparr>symoff = 95000, nsyms = 200, stroff = 99000, strsize = 400\<rparr> \<and>
   fix_exe_for_code_signing accepting signed_exe =
     (Inl (AssertionError ''Executable contains code signature!''), signed_exe) \<and>
   AssertionError ''Executable contains code signature!'' \<noteq>
     AssertionError ''Sanity check failed!''"
proof -
  have 1: "headers signed_exe = [] @ [signed_header]"
    by (simp add: signed_exe_def)
  have 2: "sign_sec signed_header \<noteq> []"
    by (simp add: signed_header_facts)
  from fix_error [OF 1 patch_header_sign_error [OF 2], of accepting] show ?thesis
    by (simp add: signed_header_facts linkedit_segment_def)
qed

subsection \<open>What a successful run leaves alone\<close>

text \<open>
  C7. After a successful run the in-memory size \<open>vmsize\<close> of the \<open>__LINKEDIT\<close> segment
  is what it was. Every load command of the last slice is what it was, except for the
  \<open>strsize\<close> field of the symbol-table command and the \<open>filesize\<close> field of the
  \<open>__LINKEDIT\<close> segment-64 command; the other slices, the offset of the last slice and
  the length of the file are what they were. For a fat binary the only further change is
  the size of the last entry of the fat header; a thin binary stays without fat header.
\<close>

theorem only_the_two_sizes_change:
  assumes "fix_exe_for_code_signing w f = (Inr (), f')"
  shows "f' = f\<lparr>headers := headers f', fat := fat f'\<rparr> \<and>
         file_size f' = file_size f \<and>
         headers f \<noteq> [] \<and> length (headers f') = length (headers f) \<and>
         butlast (headers f') = butlast (headers f) \<and>
         last (headers f') = (last (headers f))\<lparr>commands := commands (last (headers f'))\<rparr> \<and>
         list_all2 cmd_frame (commands (last (headers f))) (commands (last (headers f'))) \<and>
         (\<exists>seg secs seg'. linkedit_seg (last (headers f)) = [Segment64 seg secs] \<and>
            linkedit_seg (last (headers f')) = [Segment64 seg' secs] \<and>
            vmsize seg' = vmsize seg) \<and>
         (\<exists>st. symtab_sec (last (headers f)) = [Symtab st]) \<and>
         (case fat f of
            None \<Rightarrow> fat f' = None
          | Some fh \<Rightarrow> archs fh \<noteq> [] \<and>
              fat f' = Some (fh\<lparr>archs := butlast (archs fh) @
                [(last (archs fh))\<lparr>arch_size := file_size f - arch_offset (last (archs fh))\<rparr>]\<rparr>))"
proof -
  from fix_success_shape [OF assms] obtain hs h seg secs st where
    hs: "headers f = hs @ [h]"
    and seg: "linkedit_seg h = [Segment64 seg secs]" and st: "symtab_sec h = [Symtab st]"
    and hs': "headers f' = hs @ [apply_delta (file_size f - old_file_size h seg) h]"
    and fs: "file_size f' = file_size f"
    and f': "f' = f\<lparr>headers := headers f', fat := fat f'\<rparr>"
    and ft: "case fat f of
              None \<Rightarrow> fat f' = None
            | Some fh \<Rightarrow> \<exists>fh'. patch_fat (file_size f) fh = Inr fh' \<and> fat f' = Some fh'"
    by blast
  let ?d = "file_size f - old_file_size h seg"
  have 1: "headers f \<noteq> []" "length (headers f') = length (headers f)"
    "butlast (headers f') = butlast (headers f)"
    using hs hs' by simp_all
  have l: "last (headers f) = h" "last (headers f') = apply_delta ?d h"
    using hs hs' by simp_all
  have 2: "last (headers f') = (last (headers f))\<lparr>commands := commands (last (headers f'))\<rparr>"
    using l apply_delta_commands_only [of ?d h] by simp
  have 3: "list_all2 cmd_frame (commands (last (headers f))) (commands (last (headers f')))"
    using l cmd_frame_apply_delta [of h ?d] by simp
  have "linkedit_seg (last (headers f')) =
      [Segment64 (seg\<lparr>filesize := filesize seg + ?d\<rparr>) secs]"
    using l patched_slice(1) [OF seg st, of ?d] by simp
  moreover have "vmsize (seg\<lparr>filesize := filesize seg + ?d\<rparr>) = vmsize seg" by simp
  ultimately have 4: "\<exists>seg secs seg'. linkedit_seg (last (headers f)) = [Segment64 seg secs] \<and>
            linkedit_seg (last (headers f')) = [Segment64 seg' secs] \<and> vmsize seg' = vmsize seg"
    using seg l by blast
  have 5: "case fat f of
            None \<Rightarrow> fat f' = None
          | Some fh \<Rightarrow> archs fh \<noteq> [] \<and>
              fat f' = Some (fh\<lparr>archs := butlast (archs fh) @
                [(last (archs fh))\<lparr>arch_size := file_size f - arch_offset (last (archs fh))\<rparr>]\<rparr>)"
  proof (cases "fat f")
    case None
    with ft show ?thesis by simp
  next
    case (Some fh)
    with ft obtain fh' where q: "patch_fat (file_size f) fh = Inr fh'" and "fat f' = Some fh'"
      by auto
    moreover from patch_fat_InrD [OF q] obtain as a where
      "archs fh = as @ [a]"
      "fh' = fh\<lparr>archs := as @ [a\<lparr>arch_size := file_size f - arch_offset a\<rparr>]\<rparr>"
      by blast
    ultimately show ?thesis using Some by simp
  qed
  have 6: "\<exists>st. symtab_sec (last (headers f)) = [Symtab st]"
    using st l by simp
  from f' fs 1 2 3 4 5 6 show ?thesis by blast
qed

theorem only_the_two_sizes_change_witness:
  "fix_exe_for_code_signing accepting fat_exe = (Inr (), fat_exe_patched) \<and>
   fat_exe_patched = fat_exe\<lparr>headers := headers fat_exe_patched, fat := fat fat_exe_patched\<rparr> \<and>
   file_size fat_exe_patched = file_size fat_exe \<and>
   headers fat_exe \<noteq> [] \<and> length (headers fat_exe_patched) = length (headers fat_exe) \<and>
   butlast (headers fat_exe_patched) = butlast (headers fat_exe) \<and>
   last (headers fat_exe_patched) =
     (last (headers fat_exe))\<lparr>commands := commands (last (headers fat_exe_patched))\<rparr> \<and>
   list_all2 cmd_frame (commands (last (headers fat_exe)))
     (commands (last (headers fat_exe_patched))) \<and>
   (\<exists>seg secs seg'. linkedit_seg (last (headers fat_exe)) = [Segment64 seg secs] \<and>
      linkedit_seg (last (headers fat_exe_patched)) = [Segment64 seg' secs] \<and>
      vmsize seg' = vmsize seg) \<and>
   (\<exists>st. symtab_sec (last (headers fat_exe)) = [Symtab st]) \<and>
   (case fat fat_exe of
      None \<Rightarrow> fat fat_exe_patched = None
    | Some fh \<Rightarrow> archs fh \<noteq> [] \<and>
        fat fat_exe_patched = Some (fh\<lparr>archs := butlast (archs fh) @
          [(last (archs fh))\<lparr>arch_size :=
             file_size fat_exe - arch_offset (last (archs fh))\<rparr>]\<rparr>))"
  using only_the_two_sizes_change [OF fat_exe_run] fat_exe_run by blast

text \<open>
  C8. On a file that a run has patched with success, a second run succeeds and leaves
  the file exactly as it finds it: its \<open>delta\<close> is zero, so \<open>strsize\<close>, \<open>filesize\<close>
  and, for a fat binary, the size of the last fat entry keep their values, and the writer
  is given what it has accepted before.
\<close>

theorem second_run_changes_nothing:
  assumes "fix_exe_for_code_signing w f = (Inr (), f')"
  shows "fix_exe_for_code_signing w f' = (Inr (), f') \<and>
         (\<exists>seg' secs'. linkedit_seg (last (headers f')) = [Segment64 seg' secs'] \<and>
            file_size f' - old_file_size (last (headers f')) seg' = 0)"
proof -
  from fix_InrD [OF assms] obtain hs h h' where
    hs: "headers f = hs @ [h]" and p: "patch_header (file_size f) h = Inr h'"
    and a: "refuses w (hs @ [h']) = None"
    and c: "case fat f of
        None \<Rightarrow> f' = f\<lparr>headers := hs @ [h']\<rparr>
      | Some fh \<Rightarrow> \<exists>fh'. patch_fat (file_size f) fh = Inr fh' \<and> refuses_fat w fh' = None \<and>
                   f' = f\<lparr>headers := hs @ [h'], fat := Some fh'\<rparr>"
    by blast
  from c have hs': "headers f' = hs @ [h']" and fs: "file_size f' = file_size f"
    by (auto split: option.splits)
  have p': "patch_header (file_size f') h' = Inr h'"
    using patch_header_again [OF p] fs by simp
  have same: "f'\<lparr>headers := hs @ [h']\<rparr> = f'"
    using hs' by simp
  have run: "fix_exe_for_code_signing w f' = (Inr (), f')"
  proof (cases "fat f")
    case None
    with c have "fat f' = None" by simp
    with fix_result [OF hs' p', of w] a same show ?thesis by simp
  next
    case (Some fh)
    with c obtain fh' where q: "patch_fat (file_size f) fh = Inr fh'"
      and b: "refuses_fat w fh' = None"
      and f': "f' = f\<lparr>headers := hs @ [h'], fat := Some fh'\<rparr>"
      by auto
    from f' have ft': "fat f' = Some fh'" by simp
    have q': "patch_fat (file_size f') fh' = Inr fh'"
      using patch_fat_again [OF q] fs by simp
    have "f'\<lparr>headers := hs @ [h'], fat := Some fh'\<rparr> = f'"
      using hs' ft' by simp
    with fix_result [OF hs' p', of w] a b ft' q' show ?thesis by simp
  qed
  from patch_header_InrD [OF p'] obtain seg' secs' where
    "linkedit_seg h' = [Segment64 seg' secs']"
    and e: "h' = apply_delta (file_size f' - old_file_size h' seg') h'"
    by blast
  moreover from patch_header_InrD [OF p] obtain seg secs st where
    seg: "linkedit_seg h = [Segment64 seg secs]" and st: "symtab_sec h = [Symtab st]"
    and h': "h' = apply_delta (file_size f - old_file_size h seg) h"
    by blast
  moreover have "linkedit_seg h' =
      [Segment64 (seg\<lparr>filesize := filesize seg + (file_size f - old_file_size h seg)\<rparr>) secs]"
    using patched_slice(1) [OF seg st] h' by simp
  ultimately have "linkedit_seg (last (headers f')) = [Segment64 seg' secs'] \<and>
      file_size f' - old_file_size (last (headers f')) seg' = 0"
    using hs' fs by (auto simp: old_file_size_def offset_apply_delta)
  with run show ?thesis by blast
qed

theorem second_run_changes_nothing_witness:
  "fix_exe_for_code_signing accepting fat_exe = (Inr (), fat_exe_patched) \<and>
   fix_exe_for_code_signing accepting fat_exe_patched = (Inr (), fat_exe_patched) \<and>
   (\<exists>seg' secs'. linkedit_seg (last (headers fat_exe_patched)) = [Segment64 seg' secs'] \<and>
      file_size fat_exe_patched - old_file_size (last (headers fat_exe_patched)) seg' = 0)"
  using second_run_changes_nothing [OF fat_exe_run] fat_exe_run by blast

text \<open>
  C9. The equation that the fourth assertion checks holds again after the patch: a
  successful run starts from a last slice with \<open>fileoff + filesize = stroff + strsize\<close>,
  leaves \<open>fileoff\<close> and \<open>stroff\<close> as they were, adds the same amount to \<open>filesize\<close>
  and to \<open>strsize\<close>, and so the slice it writes satisfies the equation too.
\<close>

theorem contiguity_is_kept:
  assumes "fix_exe_for_code_signing w f = (Inr (), f')"
  shows "\<exists>seg secs st seg' st'.
           linkedit_seg (last (headers f)) = [Segment64 seg secs] \<and>
           symtab_sec (last (headers f)) = [Symtab st] \<and>
           fileoff seg + filesize seg = stroff st + strsize st \<and>
           linkedit_seg (last (headers f')) = [Segment64 seg' secs] \<and>
           symtab_sec (last (headers f')) = [Symtab st'] \<and>
           fileoff seg' = fileoff seg \<and> stroff st' = stroff st \<and>
           filesize seg' - filesize seg = strsize st' - strsize st \<and>
           fileoff seg' + filesize seg' = stroff st' + strsize st'"
proof -
  from fix_success_shape [OF assms] obtain hs h seg secs st where
    hs: "headers f = hs @ [h]"
    and seg: "linkedit_seg h = [Segment64 seg secs]" and st: "symtab_sec h = [Symtab st]"
    and c: "fileoff seg + filesize seg = stroff st + strsize st"
    and hs': "headers f' = hs @ [apply_delta (file_size f - old_file_size h seg) h]"
    by blast
  let ?d = "file_size f - old_file_size h seg"
  let ?seg' = "seg\<lparr>filesize := filesize seg + ?d\<rparr>"
  let ?st' = "st\<lparr>strsize := strsize st + ?d\<rparr>"
  have a: "linkedit_seg (last (headers f)) = [Segment64 seg secs]"
    "symtab_sec (last (headers f)) = [Symtab st]"
    using hs seg st by simp_all
  have b: "linkedit_seg (last (headers f')) = [Segment64 ?seg' secs]"
    "symtab_sec (last (headers f')) = [Symtab ?st']"
    using hs' patched_slice [OF seg st, of ?d] by simp_all
  have e: "fileoff ?seg' = fileoff seg" "stroff ?st' = stroff st"
    "filesize ?seg' - filesize seg = strsize ?st' - strsize st"
    "fileoff ?seg' + filesize ?seg' = stroff ?st' + strsize ?st'"
    using c by simp_all
  from a b c e show ?thesis by blast
qed

theorem contiguity_is_kept_witness:
  "fix_exe_for_code_signing accepting thin_exe = (Inr (), thin_exe_patched) \<and>
   (\<exists>seg secs st seg' st'.
      linkedit_seg (last (headers thin_exe)) = [Segment64 seg secs] \<and>
      symtab_sec (last (headers thin_exe)) = [Symtab st] \<and>
      fileoff seg + filesize seg = stroff st + strsize st \<and>
      linkedit_seg (last (headers thin_exe_patched)) = [Segment64 seg' secs] \<and>
      symtab_sec (last (headers thin_exe_patched)) = [Symtab st'] \<and>
      fileoff seg' = fileoff seg \<and> stroff st' = stroff st \<and>
      filesize seg' - filesize seg = strsize st' - strsize st \<and>
      fileoff seg' + filesize seg' = stroff st' + strsize st')"
  using contiguity_is_kept [OF thin_exe_run] thin_exe_run by blast

end
